theory Spec2Isabelle
  imports Main
begin

section \<open>Values of the Python program\<close>

text \<open>
  The program is \<^verbatim>\<open>src/scan_repos.py\<close>: a class \<^verbatim>\<open>GitleaksScanner\<close> that clones a
  fixed list of repositories with \<^verbatim>\<open>git\<close>, runs \<^verbatim>\<open>gitleaks\<close> on each clone, reads
  the JSON report and keeps running counters.

  \<^verbatim>\<open>json.load\<close> returns an arbitrary JSON value; the program stores it in
  \<^verbatim>\<open>findings\<close> unchecked, so the model keeps the whole value.  In \<open>JStr\<close> one
  \<open>char\<close> stands for one code point of the Python string; \<open>JFloat\<close> carries the
  literal text of a non-integer number (the program never computes with it); \<open>JObj\<close>
  is a Python dict as an association list with distinct keys.
\<close>

datatype json =
    JNull
  | JBool bool
  | JInt int
  | JFloat string
  | JStr string
  | JArr "json list"
  | JObj "(string \<times> json) list"

text \<open>
  Exceptions are values: the class the handlers dispatch on, and \<^verbatim>\<open>str(e)\<close>.
  \<^verbatim>\<open>subprocess.TimeoutExpired\<close>, \<^verbatim>\<open>json.JSONDecodeError\<close>, \<^verbatim>\<open>TypeError\<close> and
  \<^verbatim>\<open>AttributeError\<close> derive from \<^verbatim>\<open>Exception\<close>, as does every \<open>OtherException\<close>;
  \<^verbatim>\<open>KeyboardInterrupt\<close> derives from \<^verbatim>\<open>BaseException\<close> only, so
  \<^verbatim>\<open>except Exception\<close> does not catch it.
\<close>

datatype exn_class =
    TimeoutExpired
  | JSONDecodeError
  | TypeError
  | AttributeError
  | KeyboardInterrupt
  | OtherException

datatype exn = Exn exn_class string

type_synonym 'a result = "exn + 'a"

fun exn_class_of :: "exn \<Rightarrow> exn_class" where
  "exn_class_of (Exn c m) = c"

fun str_of_exn :: "exn \<Rightarrow> string" where
  "str_of_exn (Exn c m) = m"

definition is_Exception :: "exn \<Rightarrow> bool" where
  "is_Exception e = (exn_class_of e \<noteq> KeyboardInterrupt)"

text \<open>\<^verbatim>\<open>len(x)\<close>: defined on lists, dicts and strings, \<^verbatim>\<open>TypeError\<close> otherwise.\<close>

fun py_len :: "json \<Rightarrow> nat result" where
  "py_len (JArr xs) = Inr (length xs)"
| "py_len (JObj kvs) = Inr (length kvs)"
| "py_len (JStr s) = Inr (length s)"
| "py_len JNull = Inl (Exn TypeError ''object of type 'NoneType' has no len()'')"
| "py_len (JBool b) = Inl (Exn TypeError ''object of type 'bool' has no len()'')"
| "py_len (JInt i) = Inl (Exn TypeError ''object of type 'int' has no len()'')"
| "py_len (JFloat f) = Inl (Exn TypeError ''object of type 'float' has no len()'')"

text \<open>
  \<^verbatim>\<open>findings[:5]\<close>, as the sequence the \<^verbatim>\<open>for\<close> loop then iterates: the first five
  elements of a list, the first five one-character strings of a string.  A dict cannot
  be indexed by a slice (\<^verbatim>\<open>TypeError\<close>; \<^verbatim>\<open>KeyError\<close> from Python 3.12 on, an
  \<^verbatim>\<open>Exception\<close> either way), and the remaining values are not subscriptable.
\<close>

fun py_slice5 :: "json \<Rightarrow> json list result" where
  "py_slice5 (JArr xs) = Inr (take 5 xs)"
| "py_slice5 (JStr s) = Inr (map (\<lambda>c. JStr [c]) (take 5 s))"
| "py_slice5 (JObj kvs) = Inl (Exn TypeError ''unhashable type: slice'')"
| "py_slice5 v = Inl (Exn TypeError ''object is not subscriptable'')"

text \<open>\<^verbatim>\<open>d.get(key, default)\<close> on a dict; the defaults of the program are strings.\<close>

definition dict_get :: "(string \<times> json) list \<Rightarrow> string \<Rightarrow> string \<Rightarrow> json" where
  "dict_get kvs key dflt = (case map_of kvs key of Some v \<Rightarrow> v | None \<Rightarrow> JStr dflt)"

subsection \<open>Paths\<close>

text \<open>
  \<^verbatim>\<open>s.split('/')[-1]\<close> and \<^verbatim>\<open>os.path.basename(s)\<close> (POSIX) both return what follows
  the last slash; \<^verbatim>\<open>os.path.join(a, b)\<close> (POSIX, two arguments) is written out.
\<close>

definition last_segment :: "string \<Rightarrow> string" where
  "last_segment s = rev (takeWhile (\<lambda>c. c \<noteq> CHR ''/'') (rev s))"

definition basename :: "string \<Rightarrow> string" where
  "basename p = last_segment p"

definition path_join :: "string \<Rightarrow> string \<Rightarrow> string" where
  "path_join a b =
     (if b \<noteq> [] \<and> hd b = CHR ''/'' then b
      else if a = [] \<or> last a = CHR ''/'' then a @ b
      else a @ ''/'' @ b)"

section \<open>State of the scanner and of its surroundings\<close>

text \<open>
  A console line is the sequence of pieces of the printed f-string: literal or
  interpolated text (\<open>S\<close>), an interpolated number (\<open>N\<close>), an interpolated JSON value
  (\<open>V\<close>, printed by \<^verbatim>\<open>str\<close>).  Colour escape sequences and the non-ASCII glyphs of
  the literals (emoji, the bullet) are left out.
\<close>

datatype piece = S string | N nat | V json

type_synonym line = "piece list"

record completed_process =
  returncode :: int
  stdout :: string
  stderr :: string

text \<open>The dict \<^verbatim>\<open>scan_repository\<close> returns (\<^verbatim>\<open>result_data\<close>).\<close>

record scan_result =
  repo_name :: string
  repo_url :: string
  repo_path :: string
  report_file :: string
  findings :: json
  findings_count :: nat
  success :: bool
  error :: "string option"

text \<open>
  The fields of \<^verbatim>\<open>GitleaksScanner\<close>, and with them what the process has done to the
  outside: the lines printed so far, the child processes started so far (argument
  vector and timeout), and the final report once written.
\<close>

record scanner =
  temp_dir :: "string option"
  results :: "scan_result list"
  total_findings :: nat
  repos_with_secrets :: nat
  console :: "line list"
  spawned :: "(string list \<times> nat) list"
  final_report :: "line list option"

definition init_scanner :: scanner where
  "init_scanner =
     \<lparr>temp_dir = None, results = [], total_findings = 0, repos_with_secrets = 0,
      console = [], spawned = [], final_report = None\<rparr>"

definition print :: "line \<Rightarrow> scanner \<Rightarrow> scanner" where
  "print l s = s\<lparr>console := console s @ [l]\<rparr>"

text \<open>
  What the surroundings answer while one repository is processed:
  \<^verbatim>\<open>subprocess.run(argv, timeout=t)\<close>; the content of a file once the scanner process
  has ended (\<open>None\<close>: \<^verbatim>\<open>os.path.exists\<close> is false; \<^verbatim>\<open>os.path.getsize\<close> is the length);
  and \<^verbatim>\<open>open\<close> followed by \<^verbatim>\<open>json.load\<close> on a content.
\<close>

record repo_env =
  subprocess_run :: "string list \<Rightarrow> nat \<Rightarrow> completed_process result"
  report_content :: "string \<Rightarrow> string option"
  json_load :: "string \<Rightarrow> json result"

definition run_process :: "repo_env \<Rightarrow> string list \<Rightarrow> nat \<Rightarrow> scanner \<Rightarrow>
    completed_process result \<times> scanner" where
  "run_process env argv t s =
     (subprocess_run env argv t, s\<lparr>spawned := spawned s @ [(argv, t)]\<rparr>)"

section \<open>clone\_repository\<close>

definition none_path_error :: exn where
  "none_path_error =
     Exn TypeError ''expected str, bytes or os.PathLike object, not NoneType''"

definition clone_repository :: "repo_env \<Rightarrow> string \<Rightarrow> scanner \<Rightarrow>
    (bool \<times> string) result \<times> scanner" where
  "clone_repository env url s =
     (let name = last_segment url in
      case temp_dir s of
        None \<Rightarrow> (Inl none_path_error, s)
      | Some tmp \<Rightarrow>
          (let path = path_join tmp name in
           case run_process env [''git'', ''clone'', ''--depth'', ''1'', url, path] 300 s of
             (Inr result, s1) \<Rightarrow>
               (if returncode result = 0 then (Inr (True, path), s1)
                else (Inr (False, []),
                      print [S ''Failed to clone '', S name, S '': '', S (stderr result)] s1))
           | (Inl e, s1) \<Rightarrow>
               (if exn_class_of e = TimeoutExpired then
                  (Inr (False, []), print [S ''Timeout cloning '', S name] s1)
                else if is_Exception e then
                  (Inr (False, []),
                   print [S ''Error cloning '', S name, S '': '', S (str_of_exn e)] s1)
                else (Inl e, s1))))"

section \<open>scan\_repository\<close>

text \<open>
  Lines 113 to 122: \<^verbatim>\<open>findings = []\<close>, \<^verbatim>\<open>findings_count = 0\<close>, and when the report
  exists with a positive size, the inner \<^verbatim>\<open>try\<close>: load it, take its length.  Only
  \<^verbatim>\<open>json.JSONDecodeError\<close> is caught there (the assignment to \<^verbatim>\<open>findings\<close> has not
  happened then); any other exception leaves the inner \<^verbatim>\<open>try\<close>.
\<close>

definition load_findings :: "repo_env \<Rightarrow> string \<Rightarrow> (json \<times> nat) result" where
  "load_findings env file =
     (case report_content env file of
        None \<Rightarrow> Inr (JArr [], 0)
      | Some content \<Rightarrow>
          (if length content > 0 then
             (case json_load env content of
                Inl e \<Rightarrow>
                  (if exn_class_of e = JSONDecodeError then Inr (JArr [], 0) else Inl e)
              | Inr v \<Rightarrow>
                  (case py_len v of
                     Inl e \<Rightarrow> Inl e
                   | Inr n \<Rightarrow> Inr (v, n)))
           else Inr (JArr [], 0)))"

text \<open>
  The body of the \<^verbatim>\<open>for finding in findings[:5]\<close> loop: four \<^verbatim>\<open>finding.get\<close> calls,
  which raise \<^verbatim>\<open>AttributeError\<close> on anything but a dict, then one printed line.
\<close>

definition finding_line :: "(string \<times> json) list \<Rightarrow> line" where
  "finding_line kvs =
     [S ''   '', V (dict_get kvs ''ruleID'' ''Unknown''), S '': '',
      V (dict_get kvs ''description'' ''No description''), S '' (File: '',
      V (dict_get kvs ''file'' ''Unknown file''), S '', Line: '',
      V (dict_get kvs ''startLine'' ''Unknown line''), S '')'']"

fun print_findings :: "json list \<Rightarrow> scanner \<Rightarrow> unit result \<times> scanner" where
  "print_findings [] s = (Inr (), s)"
| "print_findings (JObj kvs # fs) s = print_findings fs (print (finding_line kvs) s)"
| "print_findings (v # fs) s = (Inl (Exn AttributeError ''object has no attribute get''), s)"

definition more_line :: "nat \<Rightarrow> line" where
  "more_line n = [S ''   ... and '', N (n - 5), S '' more findings'']"

definition failure_result :: "string \<Rightarrow> string \<Rightarrow> string \<Rightarrow> string \<Rightarrow> string \<Rightarrow>
    scan_result" where
  "failure_result name url path file error_msg =
     \<lparr>repo_name = name, repo_url = url, repo_path = path, report_file = file,
      findings = JArr [], findings_count = 0, success = False, error = Some error_msg\<rparr>"

text \<open>The \<^verbatim>\<open>try\<close> block, lines 103 to 156.\<close>

definition scan_try :: "repo_env \<Rightarrow> string \<Rightarrow> string \<Rightarrow> string \<Rightarrow> string \<Rightarrow> scanner \<Rightarrow>
    scan_result result \<times> scanner" where
  "scan_try env name url path file s =
     (case run_process env
             [''gitleaks'', ''git'', ''--report-path'', file, ''--report-format'', ''json'',
              ''--no-banner'', path] 600 s of
        (Inl e, s1) \<Rightarrow> (Inl e, s1)
      | (Inr result, s1) \<Rightarrow>
          (case load_findings env file of
             Inl e \<Rightarrow> (Inl e, s1)
           | Inr (fs, n) \<Rightarrow>
               (let result_data =
                      \<lparr>repo_name = name, repo_url = url, repo_path = path,
                       report_file = file, findings = fs, findings_count = n,
                       success = True, error = None\<rparr>
                in
                if n > 0 then
                  (let s2 = print [S ''   Findings summary:'']
                             (print [S ''   Report: '', S file]
                               (print [S ''SECRETS FOUND: '', S name, S '' ('', N n,
                                       S '' findings)''] s1))
                   in
                   case py_slice5 fs of
                     Inl e \<Rightarrow> (Inl e, s2)
                   | Inr shown \<Rightarrow>
                       (case print_findings shown s2 of
                          (Inl e, s3) \<Rightarrow> (Inl e, s3)
                        | (Inr u, s3) \<Rightarrow>
                            (let s4 = (if n > 5 then print (more_line n) s3 else s3) in
                             (Inr result_data,
                              s4\<lparr>repos_with_secrets := repos_with_secrets s4 + 1,
                                 total_findings := total_findings s4 + n\<rparr>))))
                else
                  (Inr result_data,
                   print [S ''Clean: '', S name, S '' (no secrets found)''] s1))))"

definition scan_repository :: "repo_env \<Rightarrow> string \<Rightarrow> string \<Rightarrow> scanner \<Rightarrow>
    scan_result result \<times> scanner" where
  "scan_repository env path url s =
     (let name = basename path in
      case temp_dir s of
        None \<Rightarrow> (Inl none_path_error, s)
      | Some tmp \<Rightarrow>
          (let file = path_join tmp (name @ ''_report.json'') in
           case scan_try env name url path file (print [S ''Scanning: '', S name] s) of
             (Inr r, s1) \<Rightarrow> (Inr r, s1)
           | (Inl e, s1) \<Rightarrow>
               (if exn_class_of e = TimeoutExpired then
                  (let error_msg = ''Timeout scanning '' @ name in
                   (Inr (failure_result name url path file error_msg),
                    print [S error_msg] s1))
                else if is_Exception e then
                  (let error_msg = ''Error scanning '' @ name @ '': '' @ str_of_exn e in
                   (Inr (failure_result name url path file error_msg),
                    print [S error_msg] s1))
                else (Inl e, s1))))"

section \<open>The run\<close>

definition REPOSITORIES :: "string list" where
  "REPOSITORIES =
     [''https://github.com/AlwaysUbaid/AlgoHL'',
      ''https://github.com/AlwaysUbaid/hummingbot-ubaid'',
      ''https://github.com/AlwaysUbaid/MarketMakingMegaMachine'',
      ''https://github.com/AlwaysUbaid/market-making-gabrielee5'',
      ''https://github.com/AlwaysUbaid/avail-dune-analytics'',
      ''https://github.com/AlwaysUbaid/HyperCore-Wallet-Tracker'']"

text \<open>
  What the surroundings answer during one run of the process: whether
  \<^verbatim>\<open>shutil.which\<close> finds a tool; \<^verbatim>\<open>tempfile.mkdtemp\<close>; the answers while the
  repository of each loop iteration is processed; \<^verbatim>\<open>get_timestamp\<close>; whether the
  final report can be opened for writing; \<^verbatim>\<open>input\<close>; and, for \<^verbatim>\<open>cleanup\<close>,
  \<^verbatim>\<open>os.path.exists\<close> of the temporary directory and \<^verbatim>\<open>shutil.rmtree\<close>.
  Writing to the console and to the opened report is taken to succeed.
\<close>

record env =
  which :: "string \<Rightarrow> bool"
  mkdtemp :: "string result"
  repo :: "nat \<Rightarrow> repo_env"
  get_timestamp :: string
  open_report :: "unit result"
  user_input :: "string result"
  temp_exists :: bool
  rmtree :: "unit result"

subsection \<open>check\_dependencies\<close>

definition missing_tools :: "env \<Rightarrow> string list" where
  "missing_tools env = filter (\<lambda>tool. \<not> which env tool) [''gitleaks'', ''git'']"

fun comma_join :: "string list \<Rightarrow> string" where
  "comma_join [] = []"
| "comma_join [x] = x"
| "comma_join (x # xs) = x @ '', '' @ comma_join xs"

definition install_hint :: "string \<Rightarrow> line list" where
  "install_hint tool =
     (if tool = ''gitleaks'' then
        [[S ''  macOS: brew install gitleaks''],
         [S ''  Or download from: https://github.com/gitleaks/gitleaks/releases'']]
      else if tool = ''git'' then
        [[S ''  Install Git from: https://git-scm.com/downloads'']]
      else [])"

definition prints :: "line list \<Rightarrow> scanner \<Rightarrow> scanner" where
  "prints ls s = s\<lparr>console := console s @ ls\<rparr>"

definition check_dependencies :: "env \<Rightarrow> scanner \<Rightarrow> bool \<times> scanner" where
  "check_dependencies env s =
     (let missing = missing_tools env in
      if missing \<noteq> [] then
        (False,
         prints (concat (map install_hint missing))
           (print [S ''Please install missing tools:'']
             (print [S ''Missing required tools: '', S (comma_join missing)] s)))
      else (True, s))"

subsection \<open>setup\_temp\_directory\<close>

definition setup_temp_directory :: "env \<Rightarrow> scanner \<Rightarrow> unit result \<times> scanner" where
  "setup_temp_directory env s =
     (case mkdtemp env of
        Inl e \<Rightarrow> (Inl e, s)
      | Inr d \<Rightarrow> (Inr (), print [S ''Temporary directory: '', S d] (s\<lparr>temp_dir := Some d\<rparr>)))"

subsection \<open>The loop of run\_scan\<close>

text \<open>
  Lines 249 to 258, over the remaining URLs; \<open>i\<close> counts the iterations, so that each
  one meets its own surroundings.  A failed clone goes on to the next URL
  (\<^verbatim>\<open>continue\<close>); a scan result is appended, whatever its \<^verbatim>\<open>success\<close>.
\<close>

fun scan_repositories :: "(nat \<Rightarrow> repo_env) \<Rightarrow> nat \<Rightarrow> string list \<Rightarrow> scanner \<Rightarrow>
    unit result \<times> scanner" where
  "scan_repositories E i [] s = (Inr (), s)"
| "scan_repositories E i (url # urls) s =
     (case clone_repository (E i) url s of
        (Inl e, s1) \<Rightarrow> (Inl e, s1)
      | (Inr (ok, path), s1) \<Rightarrow>
          (if \<not> ok then scan_repositories E (Suc i) urls s1
           else
             (case scan_repository (E i) path url s1 of
                (Inl e, s2) \<Rightarrow> (Inl e, s2)
              | (Inr r, s2) \<Rightarrow>
                  scan_repositories E (Suc i) urls
                    (print [] (s2\<lparr>results := results s2 @ [r]\<rparr>)))))"

subsection \<open>generate\_final\_report and print\_summary\<close>

definition secrets_block :: "scan_result \<Rightarrow> line list" where
  "secrets_block r =
     (if findings_count r > 0 then
        [[S ''Repository: '', S (repo_name r)],
         [S ''URL: '', S (repo_url r)],
         [S ''Findings: '', N (findings_count r)],
         [S ''Report: '', S (report_file r)],
         [S ''---''],
         []]
      else [])"

definition report_lines :: "string \<Rightarrow> scanner \<Rightarrow> line list" where
  "report_lines stamp s =
     [[S ''GITLEAKS SCAN FINAL REPORT''],
      [S ''=========================''],
      [S ''Scan Date: '', S stamp],
      [S ''Total Repositories: '', N (length REPOSITORIES)],
      [S ''Successfully Scanned: '', N (length (filter success (results s)))],
      [S ''Repositories with Secrets: '', N (repos_with_secrets s)],
      [S ''Total Secret Findings: '', N (total_findings s)],
      []] @
     (if repos_with_secrets s > 0 then
        [[S ''REPOSITORIES WITH SECRETS FOUND:''],
         [S ''===================================''],
         []] @ concat (map secrets_block (results s))
      else
        [[S ''ALL REPOSITORIES ARE CLEAN!''],
         [S ''No secrets were found in any of the scanned repositories.'']])"

definition generate_final_report :: "env \<Rightarrow> scanner \<Rightarrow> string result \<times> scanner" where
  "generate_final_report env s =
     (case temp_dir s of
        None \<Rightarrow> (Inl none_path_error, s)
      | Some tmp \<Rightarrow>
          (let file = path_join tmp ''final_report.txt'' in
           case open_report env of
             Inl e \<Rightarrow> (Inl e, s)
           | Inr u \<Rightarrow>
               (Inr file,
                print [S ''Final report saved to: '', S file]
                  (print [] (s\<lparr>final_report := Some (report_lines (get_timestamp env) s)\<rparr>)))))"

definition print_summary :: "scanner \<Rightarrow> scanner" where
  "print_summary s =
     prints
       ([[S ''SCAN SUMMARY''],
         [S ''===============''],
         [S ''Total Repositories: '', N (length REPOSITORIES)],
         [S ''Successfully Scanned: '', N (length (filter success (results s)))],
         [S ''Repositories with Secrets: '', N (repos_with_secrets s)],
         [S ''Total Secret Findings: '', N (total_findings s)],
         []] @
        (if repos_with_secrets s = 0 then
           [[S ''CONGRATULATIONS! All your repositories are clean!''],
            [S ''No secrets were found in any of the scanned repositories.'']]
         else
           [[S ''WARNING: Secrets were found in '', N (repos_with_secrets s),
             S '' repository(ies)!''],
            [S ''Please review the detailed reports and take immediate action.''],
            [],
            [S ''Recommended Actions:''],
            [S ''1. Review each finding in the detailed reports''],
            [S ''2. Determine if the secrets are real or false positives''],
            [S ''3. If real secrets are found:''],
            [S ''   - Rotate/revoke the compromised credentials immediately''],
            [S ''   - Remove the secrets from git history (git filter-branch or BFG)''],
            [S ''   - Update your secrets management practices''],
            [S ''4. Consider setting up gitleaks as a pre-commit hook'']])) s"

subsection \<open>cleanup\<close>

definition cleanup :: "env \<Rightarrow> bool \<Rightarrow> scanner \<Rightarrow> unit result \<times> scanner" where
  "cleanup env keep_files s =
     (case temp_dir s of
        None \<Rightarrow> (Inr (), s)
      | Some d \<Rightarrow>
          (if d \<noteq> [] \<and> temp_exists env then
             (if keep_files then (Inr (), print [S ''Temporary files kept in: '', S d] s)
              else
                (let s1 = print [S ''Cleaning up temporary files...''] s in
                 case rmtree env of
                   Inl e \<Rightarrow> (Inl e, s1)
                 | Inr u \<Rightarrow> (Inr (), print [S ''Cleanup complete!''] s1)))
           else (Inr (), s)))"

subsection \<open>run\_scan\<close>

definition run_scan :: "env \<Rightarrow> scanner \<Rightarrow> bool result \<times> scanner" where
  "run_scan env s =
     (let s0 = prints
                 [[S ''Gitleaks Repository Scanner''],
                  [S ''================================''],
                  [S ''Scanning '', N (length REPOSITORIES), S '' repositories for secrets...''],
                  []] s
      in
      case check_dependencies env s0 of
        (False, s1) \<Rightarrow> (Inr False, s1)
      | (True, s1) \<Rightarrow>
          (case setup_temp_directory env s1 of
             (Inl e, s2) \<Rightarrow> (Inl e, s2)
           | (Inr u, s2) \<Rightarrow>
               (case scan_repositories (repo env) 0 REPOSITORIES
                       (prints [[S ''Starting repository scans...''], []] s2) of
                  (Inl e, s3) \<Rightarrow> (Inl e, s3)
                | (Inr u, s3) \<Rightarrow>
                    (case generate_final_report env s3 of
                       (Inl e, s4) \<Rightarrow> (Inl e, s4)
                     | (Inr file, s4) \<Rightarrow> (Inr True, print_summary s4)))))"

subsection \<open>main\<close>

text \<open>\<^verbatim>\<open>answer.lower().startswith('y')\<close>.\<close>

definition answers_yes :: "string \<Rightarrow> bool" where
  "answers_yes answer =
     (case answer of [] \<Rightarrow> False | c # cs \<Rightarrow> c = CHR ''y'' \<or> c = CHR ''Y'')"

text \<open>The \<^verbatim>\<open>try\<close> block of \<^verbatim>\<open>main\<close>, lines 299 to 307.\<close>

definition main_try :: "env \<Rightarrow> scanner \<Rightarrow> int result \<times> scanner" where
  "main_try env s =
     (case run_scan env s of
        (Inl e, s1) \<Rightarrow> (Inl e, s1)
      | (Inr succ, s1) \<Rightarrow>
          (if succ then
             (let s2 = print [S ''Do you want to keep the temporary files for review? (y/n): '']
                         (print [] s1)
              in
              case user_input env of
                Inl e \<Rightarrow> (Inl e, s2)
              | Inr answer \<Rightarrow>
                  (case cleanup env (answers_yes answer) s2 of
                     (Inl e, s3) \<Rightarrow> (Inl e, s3)
                   | (Inr u, s3) \<Rightarrow> (Inr (if succ then 0 else 1), s3)))
           else (Inr (if succ then 0 else 1), s1)))"

text \<open>
  \<^verbatim>\<open>main\<close>: a fresh scanner, the \<^verbatim>\<open>try\<close> block and its two handlers.  An exception
  raised by \<^verbatim>\<open>cleanup\<close> inside a handler leaves \<^verbatim>\<open>main\<close>.
\<close>

definition main :: "env \<Rightarrow> int result \<times> scanner" where
  "main env =
     (case main_try env init_scanner of
        (Inr code, s1) \<Rightarrow> (Inr code, s1)
      | (Inl e, s1) \<Rightarrow>
          (if exn_class_of e = KeyboardInterrupt then
             (case cleanup env False (print [S ''Scan interrupted by user''] (print [] s1)) of
                (Inl e', s2) \<Rightarrow> (Inl e', s2)
              | (Inr u, s2) \<Rightarrow> (Inr 1, s2))
           else if is_Exception e then
             (case cleanup env False (print [S ''Unexpected error: '', S (str_of_exn e)] s1) of
                (Inl e', s2) \<Rightarrow> (Inl e', s2)
              | (Inr u, s2) \<Rightarrow> (Inr 1, s2))
           else (Inl e, s1)))"

section \<open>The counter invariant, and sample surroundings\<close>

text \<open>
  The two counters agree with the recorded results: the total is the sum of the
  \<^verbatim>\<open>findings_count\<close> fields, and the repositories with secrets are the results whose
  \<^verbatim>\<open>findings_count\<close> is positive.
\<close>

definition counters_agree :: "scanner \<Rightarrow> bool" where
  "counters_agree s \<longleftrightarrow>
     total_findings s = sum_list (map findings_count (results s)) \<and>
     repos_with_secrets s = length (filter (\<lambda>r. 0 < findings_count r) (results s))"

text \<open>
  Concrete surroundings on which the theorems below are instantiated.  They are not
  part of the program: \<open>sample_repo_env\<close> answers every \<^verbatim>\<open>git clone\<close> with its
  first argument and every other child process with its second, shows the same
  report content under every path and parses every content to the same value.
\<close>

definition sample_process :: "int \<Rightarrow> completed_process" where
  "sample_process rc = \<lparr>returncode = rc, stdout = [], stderr = ''fatal''\<rparr>"

definition sample_repo_env :: "completed_process result \<Rightarrow> completed_process result \<Rightarrow>
    string option \<Rightarrow> json result \<Rightarrow> repo_env" where
  "sample_repo_env cloned scanned content parsed =
     \<lparr>subprocess_run = (\<lambda>argv t. if take 2 argv = [''git'', ''clone''] then cloned else scanned),
      report_content = (\<lambda>p. content),
      json_load = (\<lambda>c. parsed)\<rparr>"

definition sample_finding :: "(string \<times> json) list" where
  "sample_finding =
     [(''ruleID'', JStr ''generic-api-key''), (''description'', JStr ''Generic API Key''),
      (''file'', JStr ''config.py''), (''startLine'', JInt 3), (''entropy'', JFloat ''4.1'')]"

definition sample_scanner :: scanner where
  "sample_scanner = init_scanner\<lparr>temp_dir := Some ''/tmp/gitleaks_scan_x''\<rparr>"

text \<open>
  A run in which both tools are installed, the temporary directory can be made, the
  report can be written and the user declines to keep the files; \<open>E\<close> gives the
  surroundings of each loop iteration.
\<close>

definition sample_env :: "(nat \<Rightarrow> repo_env) \<Rightarrow> env" where
  "sample_env E =
     \<lparr>which = (\<lambda>tool. True), mkdtemp = Inr ''/tmp/gitleaks_scan_x'', repo = E,
      get_timestamp = ''2025-01-01 00:00:00'', open_report = Inr (),
      user_input = Inr ''n'', temp_exists = True, rmtree = Inr ()\<rparr>"

section \<open>Auxiliary facts\<close>

lemmas sample_defs = sample_process_def sample_repo_env_def sample_finding_def
  sample_scanner_def sample_env_def init_scanner_def

lemmas path_defs = path_join_def basename_def last_segment_def

lemma print_fields [simp]:
  "temp_dir (print l s) = temp_dir s"
  "results (print l s) = results s"
  "total_findings (print l s) = total_findings s"
  "repos_with_secrets (print l s) = repos_with_secrets s"
  "spawned (print l s) = spawned s"
  "final_report (print l s) = final_report s"
  "console (print l s) = console s @ [l]"
  by (simp_all add: print_def)

lemma prints_fields [simp]:
  "temp_dir (prints ls s) = temp_dir s"
  "results (prints ls s) = results s"
  "total_findings (prints ls s) = total_findings s"
  "repos_with_secrets (prints ls s) = repos_with_secrets s"
  "spawned (prints ls s) = spawned s"
  "final_report (prints ls s) = final_report s"
  "console (prints ls s) = console s @ ls"
  by (simp_all add: prints_def)

lemma print_findings_fields:
  "print_findings fs s = (r, s') \<Longrightarrow>
     temp_dir s' = temp_dir s \<and> results s' = results s \<and>
     total_findings s' = total_findings s \<and> repos_with_secrets s' = repos_with_secrets s \<and>
     spawned s' = spawned s \<and> final_report s' = final_report s"
  by (induction fs s rule: print_findings.induct) auto

lemma print_findings_objects:
  "print_findings (map JObj fs) s = (Inr (), s\<lparr>console := console s @ map finding_line fs\<rparr>)"
  by (induction fs arbitrary: s) (auto simp: print_def)

lemma clone_repository_fields:
  "clone_repository env url s = (r, s') \<Longrightarrow>
     temp_dir s' = temp_dir s \<and> results s' = results s \<and>
     total_findings s' = total_findings s \<and> repos_with_secrets s' = repos_with_secrets s \<and>
     final_report s' = final_report s"
  by (auto simp: clone_repository_def Let_def run_process_def
           split: option.splits sum.splits if_splits prod.splits)

lemma py_len_error: "py_len v = Inl e \<Longrightarrow> exn_class_of e = TypeError"
  by (cases v) auto

lemma load_findings_len:
  "load_findings env file = Inr (fs, n) \<Longrightarrow> py_len fs = Inr n"
  by (auto simp: load_findings_def split: option.splits sum.splits if_splits)

lemma scan_try_fields:
  "scan_try env name url path file s = (r, s') \<Longrightarrow>
     temp_dir s' = temp_dir s \<and> results s' = results s \<and> final_report s' = final_report s"
  by (auto simp: scan_try_def Let_def run_process_def
           split: option.splits sum.splits if_splits prod.splits
           dest!: print_findings_fields)

lemma scan_try_counters:
  "scan_try env name url path file s = (Inr r, s') \<Longrightarrow>
     py_len (findings r) = Inr (findings_count r) \<and>
     total_findings s' = total_findings s + findings_count r \<and>
     repos_with_secrets s' = repos_with_secrets s + (if findings_count r > 0 then 1 else 0)"
  by (auto simp: scan_try_def Let_def run_process_def
           split: option.splits sum.splits if_splits prod.splits
           dest!: print_findings_fields load_findings_len)

lemma scan_try_raise_counters:
  "scan_try env name url path file s = (Inl e, s') \<Longrightarrow>
     total_findings s' = total_findings s \<and> repos_with_secrets s' = repos_with_secrets s"
  by (auto simp: scan_try_def Let_def run_process_def
           split: option.splits sum.splits if_splits prod.splits
           dest!: print_findings_fields)

lemma scan_repository_fields:
  "scan_repository env path url s = (r, s') \<Longrightarrow>
     temp_dir s' = temp_dir s \<and> results s' = results s \<and> final_report s' = final_report s"
  by (auto simp: scan_repository_def Let_def
           split: option.splits sum.splits if_splits prod.splits
           dest!: scan_try_fields)

lemma scan_repository_counters:
  "scan_repository env path url s = (Inr r, s') \<Longrightarrow>
     py_len (findings r) = Inr (findings_count r) \<and>
     total_findings s' = total_findings s + findings_count r \<and>
     repos_with_secrets s' = repos_with_secrets s + (if findings_count r > 0 then 1 else 0)"
  by (auto simp: scan_repository_def Let_def failure_result_def
           split: option.splits sum.splits if_splits prod.splits
           dest!: scan_try_counters scan_try_raise_counters)

lemma scan_repository_raise_counters:
  "scan_repository env path url s = (Inl e, s') \<Longrightarrow>
     total_findings s' = total_findings s \<and> repos_with_secrets s' = repos_with_secrets s"
  by (auto simp: scan_repository_def Let_def
           split: option.splits sum.splits if_splits prod.splits
           dest!: scan_try_raise_counters)

text \<open>
  The loop keeps the counters in agreement with the results: a failed clone changes
  neither, a scan result is appended together with its own contribution.
\<close>

lemma scan_repositories_agree:
  "scan_repositories E i urls s = (r, s') \<Longrightarrow> counters_agree s \<Longrightarrow> counters_agree s'"
proof (induction urls arbitrary: i s)
  case Nil
  then show ?case by simp
next
  case (Cons url urls)
  obtain c s1 where c: "clone_repository (E i) url s = (c, s1)"
    by (cases "clone_repository (E i) url s")
  from clone_repository_fields [OF c] Cons.prems(2)
  have a1: "counters_agree s1" by (simp add: counters_agree_def)
  show ?case
  proof (cases c)
    case (Inl e)
    with c Cons.prems(1) a1 show ?thesis by simp
  next
    case (Inr okpath)
    obtain ok path where op: "okpath = (ok, path)" by (cases okpath)
    show ?thesis
    proof (cases ok)
      case False
      with c Inr op Cons.prems(1) have "scan_repositories E (Suc i) urls s1 = (r, s')" by simp
      then show ?thesis using a1 by (rule Cons.IH)
    next
      case True
      obtain q s2 where q: "scan_repository (E i) path url s1 = (q, s2)"
        by (cases "scan_repository (E i) path url s1")
      show ?thesis
      proof (cases q)
        case (Inl e)
        with c \<open>c = Inr okpath\<close> op True q Cons.prems(1) have "s' = s2" by simp
        then show ?thesis
          using a1 scan_repository_fields [OF q]
            scan_repository_raise_counters [OF q [unfolded Inl]]
          by (simp add: counters_agree_def)
      next
        case (Inr res)
        let ?s3 = "print [] (s2\<lparr>results := results s2 @ [res]\<rparr>)"
        from c \<open>c = Inr okpath\<close> op True q Inr Cons.prems(1)
        have run: "scan_repositories E (Suc i) urls ?s3 = (r, s')" by simp
        from scan_repository_counters [OF q [unfolded Inr]] scan_repository_fields [OF q] a1
        have a3: "counters_agree ?s3" by (simp add: counters_agree_def)
        from run a3 show ?thesis by (rule Cons.IH)
      qed
    qed
  qed
qed

lemma report_lines_cong:
  "results s = results t \<Longrightarrow> total_findings s = total_findings t \<Longrightarrow>
   repos_with_secrets s = repos_with_secrets t \<Longrightarrow> report_lines stamp s = report_lines stamp t"
  by (simp add: report_lines_def)

lemma print_summary_fields [simp]:
  "temp_dir (print_summary s) = temp_dir s"
  "results (print_summary s) = results s"
  "total_findings (print_summary s) = total_findings s"
  "repos_with_secrets (print_summary s) = repos_with_secrets s"
  "spawned (print_summary s) = spawned s"
  "final_report (print_summary s) = final_report s"
  by (simp_all add: print_summary_def)

lemma generate_final_report_fields:
  "generate_final_report env s = (Inr f, s') \<Longrightarrow>
     results s' = results s \<and> total_findings s' = total_findings s \<and>
     repos_with_secrets s' = repos_with_secrets s \<and>
     final_report s' = Some (report_lines (get_timestamp env) s)"
  by (auto simp: generate_final_report_def Let_def split: option.splits sum.splits)

text \<open>
  What can leave \<^verbatim>\<open>scan_repository\<close>, \<^verbatim>\<open>clone_repository\<close> and the loop as an
  exception, and which code \<^verbatim>\<open>main\<close> returns.
\<close>

lemma load_findings_raise:
  "load_findings env file = Inl e \<Longrightarrow>
   (\<forall>c e. json_load env c = Inl e \<longrightarrow> is_Exception e) \<Longrightarrow> is_Exception e"
  by (auto simp: load_findings_def is_Exception_def
           split: option.splits sum.splits if_splits dest!: py_len_error)

lemma py_slice5_raise: "py_slice5 v = Inl e \<Longrightarrow> is_Exception e"
  by (cases v) (auto simp: is_Exception_def)

lemma print_findings_raise: "print_findings fs s = (Inl e, s') \<Longrightarrow> is_Exception e"
  by (induction fs s rule: print_findings.induct) (auto simp: is_Exception_def)

lemma scan_try_raise:
  assumes "scan_try env name url path file s = (Inl e, s')"
    and "\<forall>argv t e. subprocess_run env argv t = Inl e \<longrightarrow> is_Exception e"
    and "\<forall>c e. json_load env c = Inl e \<longrightarrow> is_Exception e"
  shows "is_Exception e"
  using assms
  by (auto simp: scan_try_def run_process_def Let_def
           split: sum.splits prod.splits if_splits
           dest: load_findings_raise py_slice5_raise print_findings_raise)

lemma scan_repository_returns:
  assumes "temp_dir s = Some d"
    and "\<forall>argv t e. subprocess_run env argv t = Inl e \<longrightarrow> is_Exception e"
    and "\<forall>c e. json_load env c = Inl e \<longrightarrow> is_Exception e"
  shows "\<exists>r s'. scan_repository env path url s = (Inr r, s')"
proof -
  let ?file = "path_join d (basename path @ ''_report.json'')"
  let ?s0 = "print [S ''Scanning: '', S (basename path)] s"
  obtain q s1 where t: "scan_try env (basename path) url path ?file ?s0 = (q, s1)"
    by (cases "scan_try env (basename path) url path ?file ?s0")
  show ?thesis
  proof (cases q)
    case (Inl e)
    with t assms(2,3) have "is_Exception e" by (auto dest: scan_try_raise)
    with t Inl assms(1) show ?thesis
      by (simp add: scan_repository_def Let_def)
  next
    case (Inr r)
    with t assms(1) show ?thesis
      by (simp add: scan_repository_def Let_def)
  qed
qed

lemma clone_repository_returns:
  assumes "temp_dir s = Some d"
    and "\<forall>argv t e. subprocess_run env argv t = Inl e \<longrightarrow> is_Exception e"
  shows "\<exists>r s'. clone_repository env url s = (Inr r, s')"
  using assms
  by (auto simp: clone_repository_def run_process_def Let_def split: sum.splits)

lemma scan_repositories_returns:
  assumes "\<forall>i argv t e. subprocess_run (E i) argv t = Inl e \<longrightarrow> is_Exception e"
    and "\<forall>i c e. json_load (E i) c = Inl e \<longrightarrow> is_Exception e"
  shows "temp_dir s = Some d \<Longrightarrow>
         \<exists>s'. scan_repositories E i urls s = (Inr (), s') \<and> temp_dir s' = Some d"
proof (induction urls arbitrary: i s)
  case Nil
  then show ?case by simp
next
  case (Cons url urls)
  from assms(1) have run: "\<forall>argv t e. subprocess_run (E i) argv t = Inl e \<longrightarrow> is_Exception e"
    by blast
  from assms(2) have js: "\<forall>c e. json_load (E i) c = Inl e \<longrightarrow> is_Exception e"
    by blast
  from clone_repository_returns [OF Cons.prems run]
  obtain ok path s1 where c: "clone_repository (E i) url s = (Inr (ok, path), s1)"
    by fastforce
  from clone_repository_fields [OF c] Cons.prems have t1: "temp_dir s1 = Some d" by simp
  show ?case
  proof (cases ok)
    case False
    with c Cons.IH [OF t1, of "Suc i"] show ?thesis by simp
  next
    case True
    from scan_repository_returns [OF t1 run js]
    obtain r s2 where q: "scan_repository (E i) path url s1 = (Inr r, s2)" by blast
    from scan_repository_fields [OF q] t1
    have "temp_dir (print [] (s2\<lparr>results := results s2 @ [r]\<rparr>)) = Some d" by simp
    from Cons.IH [OF this, of "Suc i"] c True q show ?thesis by simp
  qed
qed

lemma run_scan_completes:
  assumes "missing_tools env = []"
    and "mkdtemp env = Inr d"
    and "\<forall>i argv t e. subprocess_run (repo env i) argv t = Inl e \<longrightarrow> is_Exception e"
    and "\<forall>i c e. json_load (repo env i) c = Inl e \<longrightarrow> is_Exception e"
    and "open_report env = Inr ()"
  shows "\<exists>s'. run_scan env s = (Inr True, s') \<and> temp_dir s' = Some d"
proof -
  let ?s0 = "prints [[S ''Gitleaks Repository Scanner''],
                  [S ''================================''],
                  [S ''Scanning '', N (length REPOSITORIES), S '' repositories for secrets...''],
                  []] s"
  let ?s2 = "prints [[S ''Starting repository scans...''], []]
               (print [S ''Temporary directory: '', S d] (?s0\<lparr>temp_dir := Some d\<rparr>))"
  have "temp_dir ?s2 = Some d" by simp
  from scan_repositories_returns [OF assms(3,4) this]
  obtain s3 where l: "scan_repositories (repo env) 0 REPOSITORIES ?s2 = (Inr (), s3)"
    and t3: "temp_dir s3 = Some d" by blast
  from assms(1,2,5) l t3 show ?thesis
    by (simp add: run_scan_def check_dependencies_def setup_temp_directory_def
          generate_final_report_def Let_def)
qed

lemma run_scan_False:
  "fst (run_scan env s) = Inr False \<longleftrightarrow> missing_tools env \<noteq> []"
  by (auto simp: run_scan_def check_dependencies_def Let_def
           split: prod.splits sum.splits bool.splits)

lemma cleanup_fst:
  "temp_dir s = temp_dir t \<Longrightarrow> fst (cleanup env keep s) = fst (cleanup env keep t)"
  by (auto simp: cleanup_def Let_def split: option.splits sum.splits)

lemma cleanup_returns:
  "rmtree env = Inr () \<Longrightarrow> fst (cleanup env keep s) = Inr ()"
  by (auto simp: cleanup_def Let_def split: option.splits sum.splits)

lemma main_try_code:
  "fst (main_try env s) = Inr code \<longleftrightarrow>
     (code = 1 \<and> missing_tools env \<noteq> []) \<or>
     (code = 0 \<and> (\<exists>s1 answer. run_scan env s = (Inr True, s1) \<and> user_input env = Inr answer \<and>
                     fst (cleanup env (answers_yes answer) s1) = Inr ()))"
proof -
  obtain q s1 where r: "run_scan env s = (q, s1)" by (cases "run_scan env s")
  let ?s2 = "print [S ''Do you want to keep the temporary files for review? (y/n): '']
               (print [] s1)"
  have cl: "\<And>k. fst (cleanup env k ?s2) = fst (cleanup env k s1)"
    by (rule cleanup_fst) simp
  from run_scan_False [of env s] r have f: "q = Inr False \<longleftrightarrow> missing_tools env \<noteq> []"
    by simp
  show ?thesis
  proof (cases q)
    case (Inl e)
    with r f show ?thesis by (simp add: main_try_def)
  next
    case (Inr succ)
    show ?thesis
    proof (cases succ)
      case False
      with r f Inr show ?thesis by (auto simp: main_try_def)
    next
      case True
      show ?thesis
      proof (cases "user_input env")
        case (Inl e)
        with r f Inr True show ?thesis by (simp add: main_try_def)
      next
        case answer: (Inr answer)
        obtain c s3 where c: "cleanup env (answers_yes answer) ?s2 = (c, s3)"
          by (cases "cleanup env (answers_yes answer) ?s2")
        with cl [of "answers_yes answer"] have "fst (cleanup env (answers_yes answer) s1) = c"
          by simp
        with r f Inr True answer c show ?thesis
          by (cases c) (auto simp: main_try_def)
      qed
    qed
  qed
qed

lemma main_code:
  "fst (main env) = Inr code \<longleftrightarrow>
     fst (main_try env init_scanner) = Inr code \<or>
     (code = 1 \<and> (\<exists>e s1. main_try env init_scanner = (Inl e, s1) \<and>
                      fst (cleanup env False s1) = Inr ()))"
proof -
  obtain q s1 where t: "main_try env init_scanner = (q, s1)"
    by (cases "main_try env init_scanner")
  show ?thesis
  proof (cases q)
    case (Inr c)
    with t show ?thesis by (simp add: main_def)
  next
    case (Inl e)
    let ?si = "print [S ''Scan interrupted by user''] (print [] s1)"
    let ?se = "print [S ''Unexpected error: '', S (str_of_exn e)] s1"
    have ci: "fst (cleanup env False ?si) = fst (cleanup env False s1)"
      by (rule cleanup_fst) simp
    have ce: "fst (cleanup env False ?se) = fst (cleanup env False s1)"
      by (rule cleanup_fst) simp
    show ?thesis
    proof (cases "exn_class_of e = KeyboardInterrupt")
      case True
      obtain c s2 where c: "cleanup env False ?si = (c, s2)"
        by (cases "cleanup env False ?si")
      with ci have "fst (cleanup env False s1) = c" by simp
      with t Inl True c show ?thesis
        by (cases c) (auto simp: main_def)
    next
      case False
      then have ex: "is_Exception e" by (simp add: is_Exception_def)
      obtain c s2 where c: "cleanup env False ?se = (c, s2)"
        by (cases "cleanup env False ?se")
      with ce have "fst (cleanup env False s1) = c" by simp
      with t Inl False ex c show ?thesis
        by (cases c) (auto simp: main_def)
    qed
  qed
qed

section \<open>The claims\<close>

text \<open>
  C1.  When the clone child process times out, raises any other \<^verbatim>\<open>Exception\<close> or ends
  with a non-zero return code, \<^verbatim>\<open>clone_repository\<close> returns \<^verbatim>\<open>(False, "")\<close>; the loop
  of \<^verbatim>\<open>run_scan\<close> then records no result for that URL, leaves both counters as they
  were and goes on with the next URL.
\<close>

theorem clone_failure_skips:
  assumes tmp: "temp_dir s = Some tmp"
    and out: "subprocess_run (E i)
                [''git'', ''clone'', ''--depth'', ''1'', url, path_join tmp (last_segment url)] 300
              = out"
    and fails: "(\<exists>e. out = Inl e \<and> (exn_class_of e = TimeoutExpired \<or> is_Exception e)) \<or>
                (\<exists>p. out = Inr p \<and> returncode p \<noteq> 0)"
  shows "\<exists>s'. clone_repository (E i) url s = (Inr (False, []), s') \<and>
           results s' = results s \<and>
           total_findings s' = total_findings s \<and>
           repos_with_secrets s' = repos_with_secrets s \<and>
           scan_repositories E i (url # urls) s = scan_repositories E (Suc i) urls s'"
proof -
  obtain r s' where c: "clone_repository (E i) url s = (r, s')"
    by (cases "clone_repository (E i) url s")
  from c tmp out fails have r: "r = Inr (False, [])"
    by (auto simp: clone_repository_def Let_def run_process_def is_Exception_def
             split: if_splits)
  from clone_repository_fields [OF c] c r show ?thesis by simp
qed

theorem clone_failure_skips_witness:
  "temp_dir sample_scanner = Some ''/tmp/gitleaks_scan_x'' \<and>
   returncode (sample_process 128) \<noteq> 0 \<and>
   (\<exists>s'. clone_repository
            (sample_repo_env (Inr (sample_process 128)) (Inr (sample_process 0)) None (Inr JNull))
            ''https://github.com/AlwaysUbaid/AlgoHL'' sample_scanner = (Inr (False, []), s') \<and>
         results s' = [] \<and> total_findings s' = 0 \<and> repos_with_secrets s' = 0 \<and>
         scan_repositories
           (\<lambda>i. sample_repo_env (Inr (sample_process 128)) (Inr (sample_process 0)) None (Inr JNull))
           0 [''https://github.com/AlwaysUbaid/AlgoHL''] sample_scanner = (Inr (), s'))"
  using clone_failure_skips [of sample_scanner "''/tmp/gitleaks_scan_x''"
      "\<lambda>i. sample_repo_env (Inr (sample_process 128)) (Inr (sample_process 0)) None (Inr JNull)"
      0 "''https://github.com/AlwaysUbaid/AlgoHL''" "Inr (sample_process 128)" "[]"]
  by (simp add: sample_defs)

text \<open>
  C2 (as amended).  When the scanner process ends without raising and the report file
  is absent, has size zero, or its content makes \<^verbatim>\<open>json.load\<close> raise
  \<^verbatim>\<open>JSONDecodeError\<close>,
  \<^verbatim>\<open>scan_repository\<close> returns one and the same result in all three cases:
  \<^verbatim>\<open>success\<close> true, \<^verbatim>\<open>findings\<close> the empty list, \<^verbatim>\<open>findings_count\<close> zero.
\<close>

theorem malformed_report_zero_findings:
  assumes tmp: "temp_dir s = Some tmp"
    and fl: "file = path_join tmp (basename path @ ''_report.json'')"
    and run: "subprocess_run env
                [''gitleaks'', ''git'', ''--report-path'', file, ''--report-format'', ''json'',
                 ''--no-banner'', path] 600 = Inr p"
    and malformed: "report_content env file = None \<or>
                    report_content env file = Some [] \<or>
                    (\<exists>c e. report_content env file = Some c \<and> json_load env c = Inl e \<and>
                           exn_class_of e = JSONDecodeError)"
  shows "fst (scan_repository env path url s) =
           Inr \<lparr>repo_name = basename path, repo_url = url, repo_path = path,
                report_file = file, findings = JArr [], findings_count = 0,
                success = True, error = None\<rparr>"
proof -
  from malformed have "load_findings env file = Inr (JArr [], 0)"
    by (auto simp: load_findings_def)
  with tmp fl run show ?thesis
    by (simp add: scan_repository_def scan_try_def run_process_def Let_def)
qed

theorem malformed_report_zero_findings_witness:
  "temp_dir sample_scanner = Some ''/tmp/gitleaks_scan_x'' \<and>
   report_content
     (sample_repo_env (Inr (sample_process 0)) (Inr (sample_process 1)) (Some ''[{'')
        (Inl (Exn JSONDecodeError ''Expecting property name'')))
     ''/tmp/gitleaks_scan_x/AlgoHL_report.json'' = Some ''[{'' \<and>
   fst (scan_repository
          (sample_repo_env (Inr (sample_process 0)) (Inr (sample_process 1)) (Some ''[{'')
             (Inl (Exn JSONDecodeError ''Expecting property name'')))
          ''/tmp/gitleaks_scan_x/AlgoHL'' ''https://github.com/AlwaysUbaid/AlgoHL'' sample_scanner) =
     Inr \<lparr>repo_name = ''AlgoHL'', repo_url = ''https://github.com/AlwaysUbaid/AlgoHL'',
          repo_path = ''/tmp/gitleaks_scan_x/AlgoHL'',
          report_file = ''/tmp/gitleaks_scan_x/AlgoHL_report.json'',
          findings = JArr [], findings_count = 0, success = True, error = None\<rparr>"
  using malformed_report_zero_findings [of sample_scanner "''/tmp/gitleaks_scan_x''"
      "''/tmp/gitleaks_scan_x/AlgoHL_report.json''" "''/tmp/gitleaks_scan_x/AlgoHL''"
      "sample_repo_env (Inr (sample_process 0)) (Inr (sample_process 1)) (Some ''[{'')
         (Inl (Exn JSONDecodeError ''Expecting property name''))"
      "sample_process 1" "''https://github.com/AlwaysUbaid/AlgoHL''"]
  by (simp add: sample_defs path_defs)

text \<open>
  C2 as stated fails: a content can fail to parse without \<^verbatim>\<open>JSONDecodeError\<close>.  On a
  report cut inside a two-byte UTF-8 sequence, reading the file raises
  \<^verbatim>\<open>UnicodeDecodeError\<close> (deep nesting raises \<^verbatim>\<open>RecursionError\<close> likewise); the
  inner handler does not catch it, and the result has \<^verbatim>\<open>success\<close> false.
\<close>

theorem parse_failure_counterexample:
  "report_content
     (sample_repo_env (Inr (sample_process 0)) (Inr (sample_process 0))
        (Some [CHR 0x22, CHR 0xC3])
        (Inl (Exn OtherException
           (CHR 0x27 #
            ''utf-8' codec can't decode byte 0xc3 in position 1: unexpected end of data''))))
     ''/tmp/gitleaks_scan_x/AlgoHL_report.json'' = Some [CHR 0x22, CHR 0xC3] \<and>
   fst (scan_repository
          (sample_repo_env (Inr (sample_process 0)) (Inr (sample_process 0))
             (Some [CHR 0x22, CHR 0xC3])
             (Inl (Exn OtherException
                (CHR 0x27 #
                 ''utf-8' codec can't decode byte 0xc3 in position 1: unexpected end of data''))))
          ''/tmp/gitleaks_scan_x/AlgoHL'' ''https://github.com/AlwaysUbaid/AlgoHL'' sample_scanner) =
     Inr \<lparr>repo_name = ''AlgoHL'', repo_url = ''https://github.com/AlwaysUbaid/AlgoHL'',
          repo_path = ''/tmp/gitleaks_scan_x/AlgoHL'',
          report_file = ''/tmp/gitleaks_scan_x/AlgoHL_report.json'',
          findings = JArr [], findings_count = 0, success = False,
          error = Some ''Error scanning AlgoHL: 'utf-8' codec can't decode byte 0xc3 in position 1: unexpected end of data''\<rparr>"
  by (simp add: scan_repository_def scan_try_def run_process_def load_findings_def
        failure_result_def is_Exception_def sample_defs path_defs Let_def)

text \<open>
  C3.  When the scanner child process of a cloned repository times out or raises any
  other \<^verbatim>\<open>Exception\<close>, \<^verbatim>\<open>scan_repository\<close> returns a result with \<^verbatim>\<open>success\<close> false,
  a non-empty error message, \<^verbatim>\<open>findings_count\<close> zero and no findings; the loop
  appends this result to \<^verbatim>\<open>results\<close> and goes on with the next URL.
\<close>

theorem scan_failure_recorded:
  assumes clone: "clone_repository (E i) url s = (Inr (True, path), s1)"
    and tmp: "temp_dir s = Some tmp"
    and fl: "file = path_join tmp (basename path @ ''_report.json'')"
    and run: "subprocess_run (E i)
                [''gitleaks'', ''git'', ''--report-path'', file, ''--report-format'', ''json'',
                 ''--no-banner'', path] 600 = Inl e"
    and exc: "exn_class_of e = TimeoutExpired \<or> is_Exception e"
  shows "\<exists>r s2 msg. scan_repository (E i) path url s1 = (Inr r, s2) \<and>
           success r = False \<and> error r = Some msg \<and> msg \<noteq> [] \<and>
           findings_count r = 0 \<and> findings r = JArr [] \<and>
           scan_repositories E i (url # urls) s =
             scan_repositories E (Suc i) urls (print [] (s2\<lparr>results := results s2 @ [r]\<rparr>))"
proof -
  from clone_repository_fields [OF clone] tmp have tmp1: "temp_dir s1 = Some tmp" by simp
  obtain q s2 where q: "scan_repository (E i) path url s1 = (q, s2)"
    by (cases "scan_repository (E i) path url s1")
  let ?name = "basename path"
  have "q = Inr (failure_result ?name url path file (''Timeout scanning '' @ ?name)) \<or>
        q = Inr (failure_result ?name url path file
                   (''Error scanning '' @ ?name @ '': '' @ str_of_exn e))"
    using q tmp1 fl run exc
    by (auto simp: scan_repository_def scan_try_def run_process_def Let_def is_Exception_def
             split: if_splits)
  then obtain msg where r: "q = Inr (failure_result ?name url path file msg)" and "msg \<noteq> []"
    by auto
  with q clone show ?thesis
    by (simp add: failure_result_def)
qed

theorem scan_failure_recorded_witness:
  "\<exists>s1 r s2. clone_repository
       (sample_repo_env (Inr (sample_process 0)) (Inl (Exn TimeoutExpired ''timed out'')) None
          (Inr JNull))
       ''https://github.com/AlwaysUbaid/AlgoHL'' sample_scanner =
         (Inr (True, ''/tmp/gitleaks_scan_x/AlgoHL''), s1) \<and>
     scan_repository
       (sample_repo_env (Inr (sample_process 0)) (Inl (Exn TimeoutExpired ''timed out'')) None
          (Inr JNull))
       ''/tmp/gitleaks_scan_x/AlgoHL'' ''https://github.com/AlwaysUbaid/AlgoHL'' s1 = (Inr r, s2) \<and>
     success r = False \<and> error r = Some ''Timeout scanning AlgoHL'' \<and>
     findings_count r = 0 \<and> findings r = JArr [] \<and>
     scan_repositories
       (\<lambda>i. sample_repo_env (Inr (sample_process 0)) (Inl (Exn TimeoutExpired ''timed out''))
          None (Inr JNull))
       0 [''https://github.com/AlwaysUbaid/AlgoHL''] sample_scanner =
         (Inr (), print [] (s2\<lparr>results := results s2 @ [r]\<rparr>))"
proof -
  let ?env = "sample_repo_env (Inr (sample_process 0)) (Inl (Exn TimeoutExpired ''timed out''))
                None (Inr JNull)"
  obtain s1 where c: "clone_repository ?env ''https://github.com/AlwaysUbaid/AlgoHL''
      sample_scanner = (Inr (True, ''/tmp/gitleaks_scan_x/AlgoHL''), s1)"
    by (simp add: clone_repository_def run_process_def sample_defs path_defs Let_def)
  have run: "subprocess_run ?env
      [''gitleaks'', ''git'', ''--report-path'', ''/tmp/gitleaks_scan_x/AlgoHL_report.json'',
       ''--report-format'', ''json'', ''--no-banner'', ''/tmp/gitleaks_scan_x/AlgoHL''] 600 =
      Inl (Exn TimeoutExpired ''timed out'')"
    by (simp add: sample_defs)
  from scan_failure_recorded [of "\<lambda>i. ?env" 0, OF c _ _ run, of "''/tmp/gitleaks_scan_x''" "[]"]
  obtain r s2 msg where
    q: "scan_repository ?env ''/tmp/gitleaks_scan_x/AlgoHL''
          ''https://github.com/AlwaysUbaid/AlgoHL'' s1 = (Inr r, s2)" and
    f: "success r = False" "error r = Some msg" "findings_count r = 0" "findings r = JArr []" and
    l: "scan_repositories (\<lambda>i. ?env) 0 [''https://github.com/AlwaysUbaid/AlgoHL'']
          sample_scanner = (Inr (), print [] (s2\<lparr>results := results s2 @ [r]\<rparr>))"
    by (auto simp: sample_defs path_defs)
  from clone_repository_fields [OF c] have "temp_dir s1 = Some ''/tmp/gitleaks_scan_x''"
    by (simp add: sample_defs)
  with q run have "error r = Some ''Timeout scanning AlgoHL''"
    by (auto simp: scan_repository_def scan_try_def run_process_def Let_def failure_result_def
          path_defs)
  with c q f l show ?thesis by blast
qed

text \<open>
  C4.  In every result \<^verbatim>\<open>scan_repository\<close> returns, after a successful scan or a
  failed one and whatever the report holds, \<^verbatim>\<open>findings_count\<close> is the length of
  \<^verbatim>\<open>findings\<close>.
\<close>

theorem findings_count_is_length:
  assumes "scan_repository env path url s = (Inr r, s')"
  shows "py_len (findings r) = Inr (findings_count r)"
  using scan_repository_counters [OF assms] by simp

theorem findings_count_is_length_witness:
  "\<exists>r s'. scan_repository
            (sample_repo_env (Inr (sample_process 0)) (Inr (sample_process 1))
               (Some ''[{}, {}]'') (Inr (JArr [JObj sample_finding, JObj []])))
            ''/tmp/gitleaks_scan_x/AlgoHL'' ''https://github.com/AlwaysUbaid/AlgoHL''
            sample_scanner = (Inr r, s') \<and>
          findings_count r = 2 \<and> py_len (findings r) = Inr 2"
proof -
  have "\<exists>r s'. scan_repository
            (sample_repo_env (Inr (sample_process 0)) (Inr (sample_process 1))
               (Some ''[{}, {}]'') (Inr (JArr [JObj sample_finding, JObj []])))
            ''/tmp/gitleaks_scan_x/AlgoHL'' ''https://github.com/AlwaysUbaid/AlgoHL''
            sample_scanner = (Inr r, s') \<and> findings_count r = 2"
    by (simp add: scan_repository_def scan_try_def run_process_def load_findings_def
          sample_defs path_defs Let_def)
  then obtain r s' where h: "scan_repository
            (sample_repo_env (Inr (sample_process 0)) (Inr (sample_process 1))
               (Some ''[{}, {}]'') (Inr (JArr [JObj sample_finding, JObj []])))
            ''/tmp/gitleaks_scan_x/AlgoHL'' ''https://github.com/AlwaysUbaid/AlgoHL''
            sample_scanner = (Inr r, s')" and n: "findings_count r = 2"
    by blast
  from findings_count_is_length [OF h] h n show ?thesis by simp
qed

text \<open>
  C5.  When \<^verbatim>\<open>run_scan\<close> has processed every configured repository and written the
  final report, \<^verbatim>\<open>total_findings\<close> is the sum of \<^verbatim>\<open>findings_count\<close> over the
  results, \<^verbatim>\<open>repos_with_secrets\<close> is the number of results with a positive
  \<^verbatim>\<open>findings_count\<close>, and the report was written from this state.
\<close>

theorem counters_match_results:
  assumes run: "run_scan env init_scanner = (Inr True, s')"
  shows "total_findings s' = sum_list (map findings_count (results s')) \<and>
         repos_with_secrets s' = length (filter (\<lambda>r. 0 < findings_count r) (results s')) \<and>
         final_report s' = Some (report_lines (get_timestamp env) s')"
proof -
  define s0 where "s0 = prints [[S ''Gitleaks Repository Scanner''],
                  [S ''================================''],
                  [S ''Scanning '', N (length REPOSITORIES), S '' repositories for secrets...''],
                  []] init_scanner"
  from run obtain s2 s3 s4 f where
    tmpd: "setup_temp_directory env s0 = (Inr (), s2)" and
    loop: "scan_repositories (repo env) 0 REPOSITORIES
             (prints [[S ''Starting repository scans...''], []] s2) = (Inr (), s3)" and
    rep: "generate_final_report env s3 = (Inr f, s4)" and
    fin: "s' = print_summary s4"
    by (auto simp: run_scan_def check_dependencies_def Let_def s0_def
             split: if_splits prod.splits sum.splits bool.splits)
  from tmpd have "results s2 = [] \<and> total_findings s2 = 0 \<and> repos_with_secrets s2 = 0"
    by (auto simp: setup_temp_directory_def s0_def init_scanner_def split: sum.splits)
  then have "counters_agree (prints [[S ''Starting repository scans...''], []] s2)"
    by (simp add: counters_agree_def)
  with loop have "counters_agree s3" by (rule scan_repositories_agree)
  moreover from generate_final_report_fields [OF rep] fin
  have same: "results s' = results s3" "total_findings s' = total_findings s3"
    "repos_with_secrets s' = repos_with_secrets s3"
    and written: "final_report s' = Some (report_lines (get_timestamp env) s3)"
    by simp_all
  moreover from same
  have "report_lines (get_timestamp env) s3 = report_lines (get_timestamp env) s'"
    by (intro report_lines_cong) simp_all
  ultimately show ?thesis
    by (simp add: counters_agree_def)
qed

theorem counters_match_results_witness:
  "\<exists>s'. run_scan
           (sample_env (\<lambda>i. sample_repo_env (Inr (sample_process (if i = 1 then 128 else 0)))
              (Inr (sample_process 1)) (Some ''[{}, {}]'')
              (Inr (JArr (if i = 2 then [JObj sample_finding, JObj []] else []))))) init_scanner =
           (Inr True, s') \<and>
         length (results s') = 5 \<and>
         total_findings s' = 2 \<and> sum_list (map findings_count (results s')) = 2 \<and>
         repos_with_secrets s' = 1 \<and>
         length (filter (\<lambda>r. 0 < findings_count r) (results s')) = 1"
proof -
  let ?env = "sample_env (\<lambda>i. sample_repo_env (Inr (sample_process (if i = 1 then 128 else 0)))
              (Inr (sample_process 1)) (Some ''[{}, {}]'')
              (Inr (JArr (if i = 2 then [JObj sample_finding, JObj []] else []))))"
  have "\<exists>s'. run_scan ?env init_scanner = (Inr True, s') \<and> length (results s') = 5 \<and>
          total_findings s' = 2 \<and> repos_with_secrets s' = 1"
    by (simp add: run_scan_def check_dependencies_def missing_tools_def
          setup_temp_directory_def generate_final_report_def REPOSITORIES_def
          clone_repository_def scan_repository_def scan_try_def run_process_def
          load_findings_def sample_defs path_defs Let_def)
  then obtain s' where h: "run_scan ?env init_scanner = (Inr True, s')"
    and v: "length (results s') = 5" "total_findings s' = 2" "repos_with_secrets s' = 1"
    by blast
  from counters_match_results [OF h] h v show ?thesis by auto
qed

text \<open>
  C6.  For a report that parses to a list of \<open>N\<close> objects, \<^verbatim>\<open>scan_repository\<close>
  prints, after the line that announces the scan: for \<open>N = 0\<close> the clean line; for
  \<open>0 < N \<le> 5\<close> the three alarm lines and one line per finding (rule id, description,
  file, line), nothing after them; for \<open>N > 5\<close> the three alarm lines, the lines of the
  first five findings and one line counting the remaining \<open>N - 5\<close>.
\<close>

theorem console_summary:
  assumes tmp: "temp_dir s = Some tmp"
    and fl: "report = path_join tmp (basename path @ ''_report.json'')"
    and run: "subprocess_run env
                [''gitleaks'', ''git'', ''--report-path'', report, ''--report-format'', ''json'',
                 ''--no-banner'', path] 600 = Inr p"
    and content: "report_content env report = Some c" "c \<noteq> []"
    and parsed: "json_load env c = Inr (JArr (map JObj fs))"
    and before: "before = console s @ [[S ''Scanning: '', S (basename path)]]"
    and alarm: "alarm =
          [[S ''SECRETS FOUND: '', S (basename path), S '' ('', N (length fs), S '' findings)''],
           [S ''   Report: '', S report],
           [S ''   Findings summary:'']]"
    and after: "s' = snd (scan_repository env path url s)"
  shows "(length fs = 0 \<longrightarrow>
            console s' =
              before @ [[S ''Clean: '', S (basename path), S '' (no secrets found)'']]) \<and>
         (0 < length fs \<and> length fs \<le> 5 \<longrightarrow>
            console s' = before @ alarm @ map finding_line fs) \<and>
         (5 < length fs \<longrightarrow>
            console s' =
              before @ alarm @ map finding_line (take 5 fs) @
              [[S ''   ... and '', N (length fs - 5), S '' more findings'']])"
proof -
  from content parsed have load: "load_findings env report = Inr (JArr (map JObj fs), length fs)"
    by (simp add: load_findings_def)
  have sl: "py_slice5 (JArr (map JObj fs)) = Inr (map JObj (take 5 fs))"
    by (simp add: take_map)
  show ?thesis
    using tmp fl run load sl alarm before after
    by (simp add: scan_repository_def scan_try_def run_process_def Let_def
          print_findings_objects more_line_def print_def)
qed

theorem console_summary_witness:
  "temp_dir sample_scanner = Some ''/tmp/gitleaks_scan_x'' \<and>
   console (snd (scan_repository
      (sample_repo_env (Inr (sample_process 0)) (Inr (sample_process 1)) (Some ''[]'')
         (Inr (JArr (map JObj []))))
      ''/tmp/gitleaks_scan_x/AlgoHL'' ''https://github.com/AlwaysUbaid/AlgoHL'' sample_scanner)) =
     [[S ''Scanning: '', S ''AlgoHL''],
      [S ''Clean: '', S ''AlgoHL'', S '' (no secrets found)'']] \<and>
   console (snd (scan_repository
      (sample_repo_env (Inr (sample_process 0)) (Inr (sample_process 1)) (Some ''[{}]'')
         (Inr (JArr (map JObj [sample_finding, []]))))
      ''/tmp/gitleaks_scan_x/AlgoHL'' ''https://github.com/AlwaysUbaid/AlgoHL'' sample_scanner)) =
     [[S ''Scanning: '', S ''AlgoHL''],
      [S ''SECRETS FOUND: '', S ''AlgoHL'', S '' ('', N 2, S '' findings)''],
      [S ''   Report: '', S ''/tmp/gitleaks_scan_x/AlgoHL_report.json''],
      [S ''   Findings summary:''],
      [S ''   '', V (JStr ''generic-api-key''), S '': '', V (JStr ''Generic API Key''),
       S '' (File: '', V (JStr ''config.py''), S '', Line: '', V (JInt 3), S '')''],
      [S ''   '', V (JStr ''Unknown''), S '': '', V (JStr ''No description''),
       S '' (File: '', V (JStr ''Unknown file''), S '', Line: '', V (JStr ''Unknown line''),
       S '')'']] \<and>
   console (snd (scan_repository
      (sample_repo_env (Inr (sample_process 0)) (Inr (sample_process 1)) (Some ''[{}]'')
         (Inr (JArr (map JObj (replicate 7 sample_finding)))))
      ''/tmp/gitleaks_scan_x/AlgoHL'' ''https://github.com/AlwaysUbaid/AlgoHL'' sample_scanner)) =
     [[S ''Scanning: '', S ''AlgoHL''],
      [S ''SECRETS FOUND: '', S ''AlgoHL'', S '' ('', N 7, S '' findings)''],
      [S ''   Report: '', S ''/tmp/gitleaks_scan_x/AlgoHL_report.json''],
      [S ''   Findings summary:'']] @
     replicate 5
       [S ''   '', V (JStr ''generic-api-key''), S '': '', V (JStr ''Generic API Key''),
        S '' (File: '', V (JStr ''config.py''), S '', Line: '', V (JInt 3), S '')''] @
     [[S ''   ... and '', N 2, S '' more findings'']]"
proof -
  have line: "finding_line sample_finding =
      [S ''   '', V (JStr ''generic-api-key''), S '': '', V (JStr ''Generic API Key''),
        S '' (File: '', V (JStr ''config.py''), S '', Line: '', V (JInt 3), S '')'']"
    by (simp add: finding_line_def dict_get_def sample_finding_def)
  have dflt: "finding_line [] =
      [S ''   '', V (JStr ''Unknown''), S '': '', V (JStr ''No description''),
       S '' (File: '', V (JStr ''Unknown file''), S '', Line: '', V (JStr ''Unknown line''),
       S '')'']"
    by (simp add: finding_line_def dict_get_def)
  have tk: "take 5 (replicate 7 sample_finding) = replicate 5 sample_finding"
    by simp
  note inst = console_summary [where s = sample_scanner and tmp = "''/tmp/gitleaks_scan_x''"
      and report = "''/tmp/gitleaks_scan_x/AlgoHL_report.json''"
      and path = "''/tmp/gitleaks_scan_x/AlgoHL''" and p = "sample_process 1"
      and url = "''https://github.com/AlwaysUbaid/AlgoHL''", OF _ _ _ _ _ _ refl refl refl]
  have none: "console (snd (scan_repository
      (sample_repo_env (Inr (sample_process 0)) (Inr (sample_process 1)) (Some ''[]'')
         (Inr (JArr (map JObj []))))
      ''/tmp/gitleaks_scan_x/AlgoHL'' ''https://github.com/AlwaysUbaid/AlgoHL'' sample_scanner)) =
     [[S ''Scanning: '', S ''AlgoHL''],
      [S ''Clean: '', S ''AlgoHL'', S '' (no secrets found)'']]"
    using inst [where env = "sample_repo_env (Inr (sample_process 0)) (Inr (sample_process 1))
         (Some ''[]'') (Inr (JArr (map JObj [])))" and c = "''[]''" and fs = "[]"]
    by (simp add: sample_process_def sample_repo_env_def sample_scanner_def init_scanner_def
          path_defs)
  have two: "console (snd (scan_repository
      (sample_repo_env (Inr (sample_process 0)) (Inr (sample_process 1)) (Some ''[{}]'')
         (Inr (JArr (map JObj [sample_finding, []]))))
      ''/tmp/gitleaks_scan_x/AlgoHL'' ''https://github.com/AlwaysUbaid/AlgoHL'' sample_scanner)) =
     [[S ''Scanning: '', S ''AlgoHL''],
      [S ''SECRETS FOUND: '', S ''AlgoHL'', S '' ('', N 2, S '' findings)''],
      [S ''   Report: '', S ''/tmp/gitleaks_scan_x/AlgoHL_report.json''],
      [S ''   Findings summary:''],
      finding_line sample_finding, finding_line []]"
    using inst [where env = "sample_repo_env (Inr (sample_process 0)) (Inr (sample_process 1))
         (Some ''[{}]'') (Inr (JArr (map JObj [sample_finding, []])))" and c = "''[{}]''"
         and fs = "[sample_finding, []]"]
    by (simp add: sample_process_def sample_repo_env_def sample_scanner_def init_scanner_def
          path_defs)
  have seven: "console (snd (scan_repository
      (sample_repo_env (Inr (sample_process 0)) (Inr (sample_process 1)) (Some ''[{}]'')
         (Inr (JArr (map JObj (replicate 7 sample_finding)))))
      ''/tmp/gitleaks_scan_x/AlgoHL'' ''https://github.com/AlwaysUbaid/AlgoHL'' sample_scanner)) =
     [[S ''Scanning: '', S ''AlgoHL''],
      [S ''SECRETS FOUND: '', S ''AlgoHL'', S '' ('', N 7, S '' findings)''],
      [S ''   Report: '', S ''/tmp/gitleaks_scan_x/AlgoHL_report.json''],
      [S ''   Findings summary:'']] @
     replicate 5 (finding_line sample_finding) @
     [[S ''   ... and '', N 2, S '' more findings'']]"
    using inst [where env = "sample_repo_env (Inr (sample_process 0)) (Inr (sample_process 1))
         (Some ''[{}]'') (Inr (JArr (map JObj (replicate 7 sample_finding))))" and c = "''[{}]''"
         and fs = "replicate 7 sample_finding"]
    by (simp add: sample_process_def sample_repo_env_def sample_scanner_def init_scanner_def
          path_defs tk)
  from none two seven show ?thesis
    unfolding line dflt by (simp add: sample_scanner_def init_scanner_def)
qed

text \<open>
  C7.  \<^verbatim>\<open>main\<close> returns no code but 0 and 1.  It returns 0 exactly when the run
  completes (\<^verbatim>\<open>run_scan\<close> returns true, the prompt is answered and \<^verbatim>\<open>cleanup\<close>
  returns), and a run in which no tool is missing and nothing raises outside what
  \<^verbatim>\<open>except Exception\<close> catches does complete, whatever the reports hold.  It returns
  1 exactly when a tool is missing, or when the \<^verbatim>\<open>try\<close> block raises
  \<^verbatim>\<open>KeyboardInterrupt\<close> or another exception and the \<^verbatim>\<open>cleanup\<close> of the handler
  returns.
\<close>

theorem main_exit_code:
  "(fst (main env) = Inr code \<longrightarrow> code = 0 \<or> code = 1) \<and>
   (fst (main env) = Inr 0 \<longleftrightarrow>
      (\<exists>s1 answer. run_scan env init_scanner = (Inr True, s1) \<and>
         user_input env = Inr answer \<and>
         fst (cleanup env (answers_yes answer) s1) = Inr ())) \<and>
   (missing_tools env = [] \<and> (\<exists>d. mkdtemp env = Inr d) \<and>
    (\<forall>i argv t e. subprocess_run (repo env i) argv t = Inl e \<longrightarrow> is_Exception e) \<and>
    (\<forall>i c e. json_load (repo env i) c = Inl e \<longrightarrow> is_Exception e) \<and>
    open_report env = Inr () \<and> (\<exists>answer. user_input env = Inr answer) \<and>
    rmtree env = Inr () \<longrightarrow>
      fst (main env) = Inr 0) \<and>
   (fst (main env) = Inr 1 \<longleftrightarrow>
      missing_tools env \<noteq> [] \<or>
      (\<exists>e s1. main_try env init_scanner = (Inl e, s1) \<and>
         (exn_class_of e = KeyboardInterrupt \<or> is_Exception e) \<and>
         fst (cleanup env False s1) = Inr ()))"
proof (intro conjI)
  show "fst (main env) = Inr code \<longrightarrow> code = 0 \<or> code = 1"
    by (auto simp: main_code main_try_code)
next
  show "fst (main env) = Inr 0 \<longleftrightarrow>
      (\<exists>s1 answer. run_scan env init_scanner = (Inr True, s1) \<and>
         user_input env = Inr answer \<and>
         fst (cleanup env (answers_yes answer) s1) = Inr ())"
    by (simp add: main_code main_try_code)
next
  show "missing_tools env = [] \<and> (\<exists>d. mkdtemp env = Inr d) \<and>
    (\<forall>i argv t e. subprocess_run (repo env i) argv t = Inl e \<longrightarrow> is_Exception e) \<and>
    (\<forall>i c e. json_load (repo env i) c = Inl e \<longrightarrow> is_Exception e) \<and>
    open_report env = Inr () \<and> (\<exists>answer. user_input env = Inr answer) \<and>
    rmtree env = Inr () \<longrightarrow>
      fst (main env) = Inr 0"
  proof (intro impI, elim conjE exE)
    fix d answer
    assume a: "missing_tools env = []" "mkdtemp env = Inr d"
      "\<forall>i argv t e. subprocess_run (repo env i) argv t = Inl e \<longrightarrow> is_Exception e"
      "\<forall>i c e. json_load (repo env i) c = Inl e \<longrightarrow> is_Exception e"
      "open_report env = Inr ()" "user_input env = Inr answer" "rmtree env = Inr ()"
    from run_scan_completes [OF a(1-5)]
    obtain s1 where "run_scan env init_scanner = (Inr True, s1)" by blast
    with a(6) cleanup_returns [OF a(7)] show "fst (main env) = Inr 0"
      by (simp add: main_code main_try_code)
  qed
next
  have cls: "\<And>e. exn_class_of e = KeyboardInterrupt \<or> is_Exception e"
    by (simp add: is_Exception_def)
  show "fst (main env) = Inr 1 \<longleftrightarrow>
      missing_tools env \<noteq> [] \<or>
      (\<exists>e s1. main_try env init_scanner = (Inl e, s1) \<and>
         (exn_class_of e = KeyboardInterrupt \<or> is_Exception e) \<and>
         fst (cleanup env False s1) = Inr ())"
    by (simp add: main_code main_try_code cls)
qed

theorem main_exit_code_witness:
  "fst (main (sample_env (\<lambda>i. sample_repo_env (Inr (sample_process (if i = 1 then 128 else 0)))
              (Inr (sample_process 1)) (Some ''[{}, {}]'')
              (Inr (JArr (if i = 2 then [JObj sample_finding, JObj []] else [])))))) = Inr 0 \<and>
   missing_tools
     ((sample_env (\<lambda>i. sample_repo_env (Inr (sample_process 0)) (Inr (sample_process 0)) None
         (Inr JNull)))\<lparr>which := (\<lambda>tool. tool \<noteq> ''gitleaks'')\<rparr>) = [''gitleaks''] \<and>
   fst (main
     ((sample_env (\<lambda>i. sample_repo_env (Inr (sample_process 0)) (Inr (sample_process 0)) None
         (Inr JNull)))\<lparr>which := (\<lambda>tool. tool \<noteq> ''gitleaks'')\<rparr>)) = Inr 1 \<and>
   fst (main (sample_env (\<lambda>i. sample_repo_env (Inl (Exn KeyboardInterrupt [])) 
         (Inr (sample_process 0)) None (Inr JNull)))) = Inr 1 \<and>
   fst (main
     ((sample_env (\<lambda>i. sample_repo_env (Inr (sample_process 0)) (Inr (sample_process 0)) None
         (Inr JNull)))\<lparr>mkdtemp := Inl (Exn OtherException ''No space left on device'')\<rparr>)) =
     Inr 1"
proof -
  let ?A = "sample_env (\<lambda>i. sample_repo_env (Inr (sample_process (if i = 1 then 128 else 0)))
              (Inr (sample_process 1)) (Some ''[{}, {}]'')
              (Inr (JArr (if i = 2 then [JObj sample_finding, JObj []] else []))))"
  let ?E = "sample_env (\<lambda>i. sample_repo_env (Inr (sample_process 0)) (Inr (sample_process 0)) None
         (Inr JNull))"
  let ?B = "?E\<lparr>which := (\<lambda>tool. tool \<noteq> ''gitleaks'')\<rparr>"
  let ?C = "sample_env (\<lambda>i. sample_repo_env (Inl (Exn KeyboardInterrupt []))
         (Inr (sample_process 0)) None (Inr JNull))"
  let ?D = "?E\<lparr>mkdtemp := Inl (Exn OtherException ''No space left on device'')\<rparr>"
  have a: "fst (main ?A) = Inr 0"
    using main_exit_code [of ?A 0]
    by (simp add: sample_env_def sample_repo_env_def missing_tools_def)
  have mb: "missing_tools ?B = [''gitleaks'']"
    by (simp add: sample_env_def missing_tools_def)
  have b: "fst (main ?B) = Inr 1"
    using main_exit_code [of ?B 1] mb by simp
  have "\<exists>s1. main_try ?C init_scanner = (Inl (Exn KeyboardInterrupt []), s1) \<and>
          temp_dir s1 = Some ''/tmp/gitleaks_scan_x''"
    by (simp add: main_try_def run_scan_def check_dependencies_def missing_tools_def
          setup_temp_directory_def REPOSITORIES_def clone_repository_def run_process_def
          is_Exception_def sample_defs path_defs Let_def)
  then obtain s1 where tc: "main_try ?C init_scanner = (Inl (Exn KeyboardInterrupt []), s1)"
    by blast
  have rc: "rmtree ?C = Inr ()" by (simp add: sample_env_def)
  have c: "fst (main ?C) = Inr 1"
    using main_exit_code [of ?C 1] tc cleanup_returns [OF rc, of False s1] by auto
  have "\<exists>s1. main_try ?D init_scanner =
          (Inl (Exn OtherException ''No space left on device''), s1)"
    by (simp add: main_try_def run_scan_def check_dependencies_def missing_tools_def
          setup_temp_directory_def sample_defs Let_def)
  then obtain s1' where td:
    "main_try ?D init_scanner = (Inl (Exn OtherException ''No space left on device''), s1')"
    by blast
  have rd: "rmtree ?D = Inr ()" by (simp add: sample_env_def)
  have d: "fst (main ?D) = Inr 1"
    using main_exit_code [of ?D 1] td cleanup_returns [OF rd, of False s1']
    by (auto simp: is_Exception_def)
  from a mb b c d show ?thesis by simp
qed

text \<open>
  C8 (as amended).  \<^verbatim>\<open>clone_repository\<close> starts exactly one child process,
  \<^verbatim>\<open>git clone --depth 1 <url> <dest>\<close> with a timeout of 300, and \<^verbatim>\<open>scan_repository\<close>
  starts exactly one, \<^verbatim>\<open>gitleaks git --report-path <file> --report-format json
  --no-banner <target>\<close> with a timeout of 600.
\<close>

theorem child_process_arguments:
  assumes tmp: "temp_dir s = Some tmp"
  shows "spawned (snd (clone_repository env url s)) =
           spawned s @
           [([''git'', ''clone'', ''--depth'', ''1'', url, path_join tmp (last_segment url)], 300)] \<and>
         spawned (snd (scan_repository env path url s)) =
           spawned s @
           [([''gitleaks'', ''git'', ''--report-path'',
              path_join tmp (basename path @ ''_report.json''),
              ''--report-format'', ''json'', ''--no-banner'', path], 600)]"
proof
  show "spawned (snd (clone_repository env url s)) =
          spawned s @
          [([''git'', ''clone'', ''--depth'', ''1'', url, path_join tmp (last_segment url)], 300)]"
    using tmp
    by (auto simp: clone_repository_def run_process_def Let_def split: sum.splits)
next
  let ?file = "path_join tmp (basename path @ ''_report.json'')"
  let ?argv = "[''gitleaks'', ''git'', ''--report-path'', ?file, ''--report-format'', ''json'',
                ''--no-banner'', path]"
  let ?s0 = "print [S ''Scanning: '', S (basename path)] s"
  obtain r s1 where t: "scan_try env (basename path) url path ?file ?s0 = (r, s1)"
    by (cases "scan_try env (basename path) url path ?file ?s0")
  then have "spawned s1 = spawned s @ [(?argv, 600)]"
    by (auto simp: scan_try_def run_process_def Let_def
             split: sum.splits prod.splits if_splits dest!: print_findings_fields)
  with t tmp show "spawned (snd (scan_repository env path url s)) = spawned s @ [(?argv, 600)]"
    by (auto simp: scan_repository_def Let_def split: sum.splits)
qed

theorem child_process_arguments_witness:
  "temp_dir sample_scanner = Some ''/tmp/gitleaks_scan_x'' \<and>
   spawned (snd (clone_repository
      (sample_repo_env (Inr (sample_process 0)) (Inr (sample_process 0)) None (Inr JNull))
      ''https://github.com/AlwaysUbaid/AlgoHL'' sample_scanner)) =
     [([''git'', ''clone'', ''--depth'', ''1'', ''https://github.com/AlwaysUbaid/AlgoHL'',
        ''/tmp/gitleaks_scan_x/AlgoHL''], 300)] \<and>
   spawned (snd (scan_repository
      (sample_repo_env (Inr (sample_process 0)) (Inr (sample_process 0)) None (Inr JNull))
      ''/tmp/gitleaks_scan_x/AlgoHL'' ''https://github.com/AlwaysUbaid/AlgoHL'' sample_scanner)) =
     [([''gitleaks'', ''git'', ''--report-path'', ''/tmp/gitleaks_scan_x/AlgoHL_report.json'',
        ''--report-format'', ''json'', ''--no-banner'', ''/tmp/gitleaks_scan_x/AlgoHL''], 600)]"
  using child_process_arguments [of sample_scanner "''/tmp/gitleaks_scan_x''"
      "sample_repo_env (Inr (sample_process 0)) (Inr (sample_process 0)) None (Inr JNull)"
      "''https://github.com/AlwaysUbaid/AlgoHL''" "''/tmp/gitleaks_scan_x/AlgoHL''"]
  by (simp add: sample_scanner_def init_scanner_def path_defs)

text \<open>
  C8 as stated fails: the scanner is not started as
  \<^verbatim>\<open>gitleaks scan <target> --report-path <file> --report-format json\<close>.
\<close>

theorem scan_arguments_counterexample:
  "spawned (snd (scan_repository
      (sample_repo_env (Inr (sample_process 0)) (Inr (sample_process 0)) None (Inr JNull))
      ''/tmp/gitleaks_scan_x/AlgoHL'' ''https://github.com/AlwaysUbaid/AlgoHL'' sample_scanner)) \<noteq>
     [([''gitleaks'', ''scan'', ''/tmp/gitleaks_scan_x/AlgoHL'', ''--report-path'',
        ''/tmp/gitleaks_scan_x/AlgoHL_report.json'', ''--report-format'', ''json''], 600)]"
  by (simp add: scan_repository_def scan_try_def run_process_def load_findings_def
        sample_defs path_defs Let_def)

text \<open>
  C9.  Two scanner processes that both end without raising and leave the same report
  content give the same \<^verbatim>\<open>scan_repository\<close> outcome (result, counters, console),
  whatever their return codes and output streams.
\<close>

theorem exit_code_ignored:
  assumes tmp: "temp_dir s = Some tmp"
    and fl: "file = path_join tmp (basename path @ ''_report.json'')"
    and run1: "subprocess_run env1
                [''gitleaks'', ''git'', ''--report-path'', file, ''--report-format'', ''json'',
                 ''--no-banner'', path] 600 = Inr p1"
    and run2: "subprocess_run env2
                [''gitleaks'', ''git'', ''--report-path'', file, ''--report-format'', ''json'',
                 ''--no-banner'', path] 600 = Inr p2"
    and same_file: "report_content env1 file = report_content env2 file"
    and same_json: "json_load env1 = json_load env2"
  shows "scan_repository env1 path url s = scan_repository env2 path url s"
proof -
  have "load_findings env1 file = load_findings env2 file"
    unfolding load_findings_def same_file same_json by (rule refl)
  with tmp fl run1 run2 show ?thesis
    by (simp add: scan_repository_def scan_try_def run_process_def Let_def)
qed

theorem exit_code_ignored_witness:
  "temp_dir sample_scanner = Some ''/tmp/gitleaks_scan_x'' \<and>
   returncode (sample_process 0) \<noteq> returncode (sample_process 1) \<and>
   scan_repository
     (sample_repo_env (Inr (sample_process 0)) (Inr (sample_process 0)) (Some ''[{}]'')
        (Inr (JArr [JObj sample_finding])))
     ''/tmp/gitleaks_scan_x/AlgoHL'' ''https://github.com/AlwaysUbaid/AlgoHL'' sample_scanner =
   scan_repository
     (sample_repo_env (Inr (sample_process 0)) (Inr (sample_process 1)) (Some ''[{}]'')
        (Inr (JArr [JObj sample_finding])))
     ''/tmp/gitleaks_scan_x/AlgoHL'' ''https://github.com/AlwaysUbaid/AlgoHL'' sample_scanner"
  using exit_code_ignored [of sample_scanner "''/tmp/gitleaks_scan_x''"
      "''/tmp/gitleaks_scan_x/AlgoHL_report.json''" "''/tmp/gitleaks_scan_x/AlgoHL''"
      "sample_repo_env (Inr (sample_process 0)) (Inr (sample_process 0)) (Some ''[{}]'')
         (Inr (JArr [JObj sample_finding]))"
      "sample_process 0"
      "sample_repo_env (Inr (sample_process 0)) (Inr (sample_process 1)) (Some ''[{}]'')
         (Inr (JArr [JObj sample_finding]))"
      "sample_process 1" "''https://github.com/AlwaysUbaid/AlgoHL''"]
  by (simp add: sample_process_def sample_repo_env_def sample_scanner_def init_scanner_def
        path_defs)

text \<open>
  C10.  When the report exists, is not empty and parses to a value that has no length
  (null, a boolean, a number), \<^verbatim>\<open>len\<close> raises \<^verbatim>\<open>TypeError\<close>, the generic handler
  runs, and \<^verbatim>\<open>scan_repository\<close> returns a result with \<^verbatim>\<open>success\<close> false and the
  error message of the handler; the counters stay as they were.
\<close>

theorem unsized_json_is_failure:
  assumes tmp: "temp_dir s = Some tmp"
    and fl: "file = path_join tmp (basename path @ ''_report.json'')"
    and run: "subprocess_run env
                [''gitleaks'', ''git'', ''--report-path'', file, ''--report-format'', ''json'',
                 ''--no-banner'', path] 600 = Inr p"
    and content: "report_content env file = Some c" "c \<noteq> []"
    and parsed: "json_load env c = Inr v"
    and unsized: "v = JNull \<or> (\<exists>b. v = JBool b) \<or> (\<exists>i. v = JInt i) \<or> (\<exists>f. v = JFloat f)"
  shows "\<exists>e r s'. py_len v = Inl e \<and> exn_class_of e = TypeError \<and>
           scan_repository env path url s = (Inr r, s') \<and>
           success r = False \<and>
           error r = Some (''Error scanning '' @ basename path @ '': '' @ str_of_exn e) \<and>
           findings r = JArr [] \<and> findings_count r = 0 \<and>
           total_findings s' = total_findings s \<and>
           repos_with_secrets s' = repos_with_secrets s"
proof -
  from unsized obtain e where e: "py_len v = Inl e" by auto
  then have cls: "exn_class_of e = TypeError" by (rule py_len_error)
  from content parsed e have "load_findings env file = Inl e"
    by (simp add: load_findings_def cls)
  with tmp fl run cls e show ?thesis
    by (simp add: scan_repository_def scan_try_def run_process_def Let_def is_Exception_def
          failure_result_def)
qed

theorem unsized_json_is_failure_witness:
  "temp_dir sample_scanner = Some ''/tmp/gitleaks_scan_x'' \<and>
   (\<exists>r s'. scan_repository
       (sample_repo_env (Inr (sample_process 0)) (Inr (sample_process 0)) (Some ''42'')
          (Inr (JInt 42)))
       ''/tmp/gitleaks_scan_x/AlgoHL'' ''https://github.com/AlwaysUbaid/AlgoHL'' sample_scanner =
         (Inr r, s') \<and>
      success r = False \<and>
      error r = Some ''Error scanning AlgoHL: object of type 'int' has no len()'' \<and>
      findings r = JArr [] \<and> findings_count r = 0 \<and>
      total_findings s' = 0 \<and> repos_with_secrets s' = 0)"
  using unsized_json_is_failure [of sample_scanner "''/tmp/gitleaks_scan_x''"
      "''/tmp/gitleaks_scan_x/AlgoHL_report.json''" "''/tmp/gitleaks_scan_x/AlgoHL''"
      "sample_repo_env (Inr (sample_process 0)) (Inr (sample_process 0)) (Some ''42'')
         (Inr (JInt 42))"
      "sample_process 0" "''42''" "JInt 42" "''https://github.com/AlwaysUbaid/AlgoHL''"]
  by (auto simp: sample_process_def sample_repo_env_def sample_scanner_def init_scanner_def
        path_defs)

end
